theory Spec2Isabelle
  imports Complex_Main
begin

section \<open>Strings\<close>

text \<open>
  A JavaScript string is modelled as a \<^typ>\<open>string\<close> whose characters are the code
  units below 256. \<open>String.prototype.trim\<close> removes the white space and line
  terminator code units from both ends; below 256 these are TAB, LF, VT, FF, CR,
  SPACE and NO-BREAK SPACE.
\<close>

definition isWhitespace :: "char \<Rightarrow> bool" where
  "isWhitespace c = (of_char c \<in> {9, 10, 11, 12, 13, 32, 160 :: nat})"

definition trim :: "string \<Rightarrow> string" where
  "trim s = rev (dropWhile isWhitespace (rev (dropWhile isWhitespace s)))"

text \<open>The decimal rendering of a number inside a template literal.\<close>

fun string_of_nat :: "nat \<Rightarrow> string" where
  "string_of_nat n =
     (if n < 10 then [char_of (48 + n)]
      else string_of_nat (n div 10) @ [char_of (48 + n mod 10)])"

text \<open>
  \<open>!v\<close> for a value that is either \<open>undefined\<close> (\<open>None\<close>) or a string: true for
  \<open>undefined\<close> and for the empty string.
\<close>

definition falsy :: "string option \<Rightarrow> bool" where
  "falsy v = (case v of None \<Rightarrow> True | Some s \<Rightarrow> s = [])"

section \<open>Token Issuer (\<open>pages/api/get-token.js\<close>)\<close>

text \<open>
  What the handler reads of the request: \<open>req.method\<close> and \<open>req.body\<close>. The body
  is \<open>None\<close> when it is \<open>null\<close> or \<open>undefined\<close> (a JSON body \<open>null\<close>, or no parsed
  body at all); otherwise only its \<open>username\<close> property matters, \<open>None\<close> when the
  body has none.
\<close>

record request_body =
  body_username :: "string option"

record request =
  req_method :: string
  req_body :: "request_body option"

text \<open>The three values read from \<open>process.env\<close>; \<open>None\<close> is an unset variable.\<close>

record environment =
  LIVEKIT_API_KEY :: "string option"
  LIVEKIT_API_SECRET :: "string option"
  LIVEKIT_URL :: "string option"

record video_grant =
  video_room :: string
  roomJoin :: bool
  canPublish :: bool
  canSubscribe :: bool
  canPublishData :: bool

record payload =
  iss :: string
  sub :: string
  nbf :: int
  exp' :: int
  video :: video_grant

text \<open>
  The JSON bodies the handler sends: \<open>{error}\<close>, \<open>{error, details: {...}}\<close> with the
  details object as its list of key/value pairs, \<open>{token, wsUrl, roomName}\<close> and
  \<open>{error, details: message}\<close>.
\<close>

datatype json_body =
  Error_body string
  | Config_error_body string "(string \<times> string) list"
  | Token_body string string string
  | Sign_error_body string string

record response =
  status :: nat
  body :: json_body

text \<open>
  The exception that leaves the handler uncaught: destructuring a body that is
  \<open>null\<close> or \<open>undefined\<close> on line 9.
\<close>

datatype handler_error = TypeError

text \<open>Lines 30 to 46: the claims handed to \<open>jwt.sign\<close>.\<close>

definition token_payload :: "string \<Rightarrow> string \<Rightarrow> int \<Rightarrow> payload" where
  "token_payload apiKey username date_now =
     (let now = date_now div 1000;
          roomName = ''ai-chat-room''
      in \<lparr>iss = apiKey, sub = username, nbf = now, exp' = now + (6 * 60 * 60),
          video = \<lparr>video_room = roomName, roomJoin = True, canPublish = True,
                   canSubscribe = True, canPublishData = True\<rparr>\<rparr>)"

text \<open>
  \<open>jwt.sign\<close> belongs to the \<open>jsonwebtoken\<close> package and is a parameter: given the
  claims and the secret it returns the token (\<open>Inr\<close>) or throws an error with a
  message (\<open>Inl\<close>). \<open>date_now\<close> is the value of \<open>Date.now()\<close>, in milliseconds.
  A response sent without \<open>res.status\<close> has status 200. The handler returns
  \<open>Inr\<close> of the response it sends, or \<open>Inl\<close> of the exception it throws before
  sending one.
\<close>

definition handler ::
  "(payload \<Rightarrow> string \<Rightarrow> string + string) \<Rightarrow> environment \<Rightarrow> int \<Rightarrow> request \<Rightarrow>
   handler_error + response" where
  "handler sign env date_now req =
     (if req_method req \<noteq> ''POST'' then
        Inr \<lparr>status = 405, body = Error_body ''Method not allowed''\<rparr>
      else
        case req_body req of
          None \<Rightarrow> Inl TypeError
        | Some req_body_object \<Rightarrow>
            let username = body_username req_body_object in
            if falsy username then
              Inr \<lparr>status = 400, body = Error_body ''Username is required''\<rparr>
            else
              let apiKey = LIVEKIT_API_KEY env;
                  apiSecret = LIVEKIT_API_SECRET env;
                  wsUrl = LIVEKIT_URL env
              in
              if falsy apiKey \<or> falsy apiSecret \<or> falsy wsUrl then
                Inr \<lparr>status = 500,
                     body = Config_error_body ''Missing LiveKit configuration''
                       [(''apiKey'', if falsy apiKey then ''Missing'' else ''Present''),
                        (''apiSecret'', if falsy apiSecret then ''Missing'' else ''Present''),
                        (''wsUrl'', if falsy wsUrl then ''Missing'' else ''Present'')]\<rparr>
              else
                (case sign (token_payload (the apiKey) (the username) date_now) (the apiSecret) of
                   Inr token \<Rightarrow>
                     Inr \<lparr>status = 200, body = Token_body token (the wsUrl) ''ai-chat-room''\<rparr>
                 | Inl message \<Rightarrow>
                     Inr \<lparr>status = 500,
                          body = Sign_error_body ''Failed to generate token'' message\<rparr>))"

section \<open>Session Controller (\<open>components/ChatRoom.js\<close>)\<close>

text \<open>
  What the controller reads of a room-service \<open>Room\<close> object: the identities of
  the values of \<open>room.participants\<close> (\<open>None\<close> when the property is undefined) and
  the identity of \<open>room.localParticipant\<close> (\<open>None\<close> when there is none).
\<close>

record room_obj =
  room_participants :: "string list option"
  localParticipant :: "string option"

text \<open>
  A message object. \<open>id\<close> is \<open>Date.now()\<close> or \<open>Date.now() + Math.random()\<close>, a
  number that is not always whole, kept here as a rational (the rounding of the
  sum to a double is left out). A flag that the object literal does not mention
  is undefined, which every reader of the flag treats as false.
\<close>

record chat_message =
  msg_id :: rat
  sender :: string
  message :: string
  timestamp :: int
  isSystem :: bool
  isUser :: bool
  isBot :: bool

text \<open>The \<open>useState\<close> cells of the component.\<close>

record session =
  room :: "room_obj option"
  messages :: "chat_message list"
  inputMessage :: string
  username :: string
  isConnected :: bool
  isConnecting :: bool
  error :: string
  participants :: "string list"

definition initial_session :: session where
  "initial_session =
     \<lparr>room = None, messages = [], inputMessage = [], username = [],
      isConnected = False, isConnecting = False, error = [], participants = []\<rparr>"

definition setUsername :: "string \<Rightarrow> session \<Rightarrow> session" where
  "setUsername v s = s\<lparr>username := v\<rparr>"

definition setInputMessage :: "string \<Rightarrow> session \<Rightarrow> session" where
  "setInputMessage v s = s\<lparr>inputMessage := v\<rparr>"

text \<open>
  The three screens the component renders (lines 684 to 733) are the three
  connection states: the login form, the connecting screen, the chat.
\<close>

datatype connection_state = Idle | Connecting | Connected

definition connectionState :: "session \<Rightarrow> connection_state" where
  "connectionState s =
     (if \<not> isConnected s \<and> \<not> isConnecting s then Idle
      else if isConnecting s then Connecting
      else Connected)"

text \<open>
  The branches of \<open>getMessageStyle\<close> in \<open>Message.jsx\<close>, in its order: the user's
  own message, the agent's, a system notice, anyone else's.
\<close>

datatype message_style = User_style | Agent_style | System_style | Other_style

definition getMessageStyle :: "chat_message \<Rightarrow> message_style" where
  "getMessageStyle m =
     (if isUser m then User_style
      else if isBot m then Agent_style
      else if isSystem m then System_style
      else Other_style)"

text \<open>The system notice that three of the handlers append.\<close>

definition system_message :: "int \<Rightarrow> int \<Rightarrow> string \<Rightarrow> chat_message" where
  "system_message date_now new_date txt =
     \<lparr>msg_id = of_int date_now, sender = ''System'', message = txt,
      timestamp = new_date, isSystem = True, isUser = False, isBot = False\<rparr>"

subsection \<open>Joining\<close>

text \<open>
  What \<open>fetch\<close> resolves to, as far as the controller reads it: \<open>ok\<close>, \<open>status\<close>,
  the result of \<open>text()\<close>, and the result of \<open>json()\<close> destructured into token,
  wsUrl and roomName (\<open>Inl\<close> when \<open>json()\<close> throws).
\<close>

record fetch_response =
  ok :: bool
  resp_status :: nat
  resp_text :: string
  resp_json :: "string + (string \<times> string \<times> string)"

text \<open>The request that line 508 sends to \<open>/api/get-token\<close>.\<close>

definition token_request :: "string \<Rightarrow> request" where
  "token_request username_now =
     \<lparr>req_method = ''POST'', req_body = Some \<lparr>body_username = Some (trim username_now)\<rparr>\<rparr>"

text \<open>The \<open>catch\<close> block of \<open>connectToRoom\<close>.\<close>

definition connection_failed :: "string \<Rightarrow> session \<Rightarrow> session" where
  "connection_failed err_message s =
     s\<lparr>error := ''Connection failed: '' @ err_message, isConnecting := False\<rparr>"

text \<open>
  \<open>connectToRoom\<close> is asynchronous. Its synchronous beginning is
  \<open>connectToRoom_begin\<close>; what runs after the awaits is \<open>connectToRoom_settle\<close>,
  and handlers of the room's events may run between the two. \<open>fetch\<close> and
  \<open>room.connect\<close> are parameters that return \<open>Inl\<close> with the message when they
  throw; \<open>room.connect\<close> returns the room object on success.
\<close>

definition connectToRoom_begin :: "session \<Rightarrow> session" where
  "connectToRoom_begin s = s\<lparr>isConnecting := True, error := []\<rparr>"

definition connectToRoom_settle ::
  "(request \<Rightarrow> string + fetch_response) \<Rightarrow> (string \<Rightarrow> string \<Rightarrow> string + room_obj) \<Rightarrow>
   string \<Rightarrow> session \<Rightarrow> session" where
  "connectToRoom_settle fetch connect username_now s =
     (case fetch (token_request username_now) of
        Inl m \<Rightarrow> connection_failed m s
      | Inr response \<Rightarrow>
          if \<not> ok response then
            connection_failed
              (''Token request failed: '' @ string_of_nat (resp_status response) @ '' ''
                 @ resp_text response) s
          else
            (case resp_json response of
               Inl m \<Rightarrow> connection_failed m s
             | Inr (token, wsUrl, roomName) \<Rightarrow>
                 (case connect wsUrl token of
                    Inl m \<Rightarrow> connection_failed m s
                  | Inr r \<Rightarrow> s\<lparr>room := Some r\<rparr>)))"

definition connectToRoom ::
  "(request \<Rightarrow> string + fetch_response) \<Rightarrow> (string \<Rightarrow> string \<Rightarrow> string + room_obj) \<Rightarrow>
   session \<Rightarrow> session" where
  "connectToRoom fetch connect s =
     (if trim (username s) = [] then s\<lparr>error := ''Please enter a username''\<rparr>
      else connectToRoom_settle fetch connect (username s) (connectToRoom_begin s))"

subsection \<open>Room events\<close>

definition updateParticipantsList :: "room_obj option \<Rightarrow> session \<Rightarrow> session" where
  "updateParticipantsList r s =
     (case r of
        None \<Rightarrow> s
      | Some rm \<Rightarrow>
          let remoteParticipants =
                (case room_participants rm of Some ps \<Rightarrow> ps | None \<Rightarrow> []);
              allParticipants =
                (case localParticipant rm of
                   Some identity \<Rightarrow> remoteParticipants @ [identity]
                 | None \<Rightarrow> remoteParticipants)
          in s\<lparr>participants := allParticipants\<rparr>)"

text \<open>
  Each handler takes the values of \<open>Date.now()\<close> and \<open>new Date()\<close> it reads.
  \<open>on_Connected\<close> also takes the room object its closure holds.
\<close>

definition on_Connected :: "room_obj \<Rightarrow> int \<Rightarrow> int \<Rightarrow> session \<Rightarrow> session" where
  "on_Connected rm date_now new_date s =
     (let s1 = s\<lparr>isConnected := True, isConnecting := False, error := []\<rparr>;
          s2 = updateParticipantsList (Some rm) s1
      in s2\<lparr>messages := messages s2 @ [system_message date_now new_date ''Connected to chat room!'']\<rparr>)"

definition on_Disconnected :: "int \<Rightarrow> int \<Rightarrow> session \<Rightarrow> session" where
  "on_Disconnected date_now new_date s =
     s\<lparr>isConnected := False, participants := [],
       messages := messages s @ [system_message date_now new_date ''Disconnected from chat room'']\<rparr>"

text \<open>
  \<open>TextDecoder.decode\<close> is a parameter, \<open>None\<close> when it throws; the participant is
  the identity of the sender, \<open>None\<close> when the event carries no participant;
  \<open>random\<close> is the value of \<open>Math.random()\<close>.
\<close>

definition on_DataReceived ::
  "('p \<Rightarrow> string option) \<Rightarrow> 'p \<Rightarrow> string option \<Rightarrow> int \<Rightarrow> rat \<Rightarrow> int \<Rightarrow> session \<Rightarrow> session" where
  "on_DataReceived decode payload participant date_now random new_date s =
     (case decode payload of
        None \<Rightarrow> s
      | Some txt \<Rightarrow>
          s\<lparr>messages := messages s @
               [\<lparr>msg_id = of_int date_now + random,
                 sender = (if falsy participant then ''Unknown'' else the participant),
                 message = txt, timestamp = new_date, isSystem = False, isUser = False,
                 isBot = (participant = Some ''ai-agent'')\<rparr>]\<rparr>)"

definition on_ParticipantConnected :: "string \<Rightarrow> int \<Rightarrow> int \<Rightarrow> session \<Rightarrow> session" where
  "on_ParticipantConnected identity date_now new_date s =
     (let s1 = s\<lparr>participants :=
                   (if identity \<notin> set (participants s) then participants s @ [identity]
                    else participants s)\<rparr>
      in if identity = ''ai-agent'' then
           s1\<lparr>messages := messages s1 @
                 [system_message date_now new_date ''AI Assistant joined the chat'']\<rparr>
         else s1)"

definition on_ParticipantDisconnected :: "string \<Rightarrow> session \<Rightarrow> session" where
  "on_ParticipantDisconnected identity s =
     s\<lparr>participants := filter (\<lambda>p. p \<noteq> identity) (participants s)\<rparr>"

subsection \<open>Sending and leaving\<close>

text \<open>The \<open>catch\<close> block of \<open>sendMessage\<close>, with the \<open>Date.now()\<close> it reads.\<close>

definition sendMessage_catch :: "string \<Rightarrow> int \<Rightarrow> session \<Rightarrow> session" where
  "sendMessage_catch err_message date_now s =
     s\<lparr>error := ''Failed to send message: '' @ err_message,
       messages := filter (\<lambda>msg. msg_id msg \<noteq> of_int date_now) (messages s)\<rparr>"

text \<open>
  \<open>TextEncoder.encode\<close> and \<open>publishData\<close> are parameters; \<open>publishData\<close> returns
  \<open>Some\<close> of the message when it throws. \<open>date_now\<close> and \<open>new_date\<close> are read when
  the message is appended, \<open>date_now_catch\<close> in the \<open>catch\<close> block.
\<close>

definition sendMessage ::
  "(string \<Rightarrow> 'p) \<Rightarrow> ('p \<Rightarrow> string option) \<Rightarrow> int \<Rightarrow> int \<Rightarrow> int \<Rightarrow> session \<Rightarrow> session" where
  "sendMessage encode publishData date_now new_date date_now_catch s =
     (if trim (inputMessage s) = [] \<or> room s = None \<or> \<not> isConnected s then s
      else
        let txt = trim (inputMessage s);
            s1 = s\<lparr>inputMessage := [],
                   messages := messages s @
                     [\<lparr>msg_id = of_int date_now, sender = username s, message = txt,
                       timestamp = new_date, isSystem = False, isUser = True,
                       isBot = False\<rparr>]\<rparr>
        in case publishData (encode txt) of
             None \<Rightarrow> s1
           | Some m \<Rightarrow> sendMessage_catch m date_now_catch s1)"

text \<open>\<open>room.disconnect()\<close> acts on the room service only.\<close>

definition disconnect :: "session \<Rightarrow> session" where
  "disconnect s =
     (let s1 = (if room s \<noteq> None then s\<lparr>room := None\<rparr> else s)
      in s1\<lparr>isConnected := False, participants := [], messages := [], error := []\<rparr>)"

section \<open>Concrete inputs\<close>

text \<open>A signing function, a complete configuration and one without the key id.\<close>

definition example_sign :: "payload \<Rightarrow> string \<Rightarrow> string + string" where
  "example_sign p secret = Inr (''jwt.'' @ sub p)"

definition example_env :: environment where
  "example_env =
     \<lparr>LIVEKIT_API_KEY = Some ''key'', LIVEKIT_API_SECRET = Some ''secret'',
      LIVEKIT_URL = Some ''wss://host''\<rparr>"

definition example_env_no_key :: environment where
  "example_env_no_key =
     \<lparr>LIVEKIT_API_KEY = None, LIVEKIT_API_SECRET = Some ''secret'',
      LIVEKIT_URL = Some ''wss://host''\<rparr>"

text \<open>
  A room in which the agent is present, a room that lists the local identity
  among the remote participants as well, a room service that accepts every
  join, a data channel that delivers and one that fails, and a session in the
  chat with a message typed.
\<close>

definition example_room :: room_obj where
  "example_room = \<lparr>room_participants = Some [''ai-agent''], localParticipant = Some ''bob''\<rparr>"

definition example_room_twice :: room_obj where
  "example_room_twice =
     \<lparr>room_participants = Some [''bob'', ''ai-agent''], localParticipant = Some ''bob''\<rparr>"

definition example_fetch :: "request \<Rightarrow> string + fetch_response" where
  "example_fetch req =
     Inr \<lparr>ok = True, resp_status = 200, resp_text = [],
          resp_json = Inr (''jwt.bob'', ''wss://host'', ''ai-chat-room'')\<rparr>"

definition example_connect :: "string \<Rightarrow> string \<Rightarrow> string + room_obj" where
  "example_connect wsUrl token = Inr example_room"

definition example_encode :: "string \<Rightarrow> string" where
  "example_encode txt = txt"

definition example_decode :: "string \<Rightarrow> string option" where
  "example_decode data = Some data"

definition example_publish_ok :: "string \<Rightarrow> string option" where
  "example_publish_ok data = None"

definition example_publish_fails :: "string \<Rightarrow> string option" where
  "example_publish_fails data = Some ''channel closed''"

definition example_connected :: session where
  "example_connected =
     \<lparr>room = Some example_room,
      messages = [system_message 1000 1000 ''Connected to chat room!''],
      inputMessage = ''hi'', username = ''bob'', isConnected = True, isConnecting = False,
      error = [], participants = [''ai-agent'', ''bob'']\<rparr>"

section \<open>Trimming\<close>

lemma trim_Nil_iff: "trim u = [] \<longleftrightarrow> (\<forall>c\<in>set u. isWhitespace c)"
proof
  assume "trim u = []"
  then have "\<forall>c\<in>set (dropWhile isWhitespace u). isWhitespace c"
    by (simp add: trim_def)
  then have "dropWhile isWhitespace u = []"
    by (metis hd_dropWhile hd_in_set)
  then show "\<forall>c\<in>set u. isWhitespace c"
    by simp
next
  assume "\<forall>c\<in>set u. isWhitespace c"
  then show "trim u = []"
    by (auto simp: trim_def dest: set_dropWhileD)
qed

text \<open>What \<open>trim\<close> returns is empty or begins with a character that is not white space.\<close>

lemma trim_starts_with_text:
  assumes "trim v \<noteq> []"
  shows "\<not> isWhitespace (hd (trim v))"
proof -
  let ?a = "dropWhile isWhitespace v"
  let ?b = "dropWhile isWhitespace (rev ?a)"
  from assms have b: "?b \<noteq> []" by (simp add: trim_def)
  then have a: "?a \<noteq> []" by (metis dropWhile.simps(1) rev.simps(1))
  have "rev ?a = takeWhile isWhitespace (rev ?a) @ ?b" by simp
  then have "?a = rev ?b @ rev (takeWhile isWhitespace (rev ?a))"
    by (metis rev_append rev_rev_ident)
  with b have "hd ?a = hd (rev ?b)"
    by (metis hd_append2 rev_is_Nil_conv)
  moreover from a have "\<not> isWhitespace (hd ?a)" by (rule hd_dropWhile)
  ultimately show ?thesis by (simp add: trim_def)
qed

lemma trim_bob: "trim ''bob'' = ''bob''"
  by (simp add: trim_def isWhitespace_def)

lemma trim_hi: "trim ''hi'' = ''hi''"
  by (simp add: trim_def isWhitespace_def)

section \<open>Properties of the Token Issuer\<close>

text \<open>
  C3. With a complete configuration and the username \<open>alice\<close>, the claims the
  handler signs have \<open>sub\<close> equal to \<open>alice\<close>, \<open>exp - nbf\<close> equal to 21600, the room
  \<open>ai-chat-room\<close> and the four grants true; the handler answers 200 with the
  token that \<open>jwt.sign\<close> makes of exactly these claims (and with the 500 of the
  \<open>catch\<close> block only if \<open>jwt.sign\<close> throws).
\<close>

theorem alice_token_claims:
  assumes "req_method req = ''POST''"
    and "req_body req = Some b" and "body_username b = Some ''alice''"
    and "LIVEKIT_API_KEY env = Some k" and "k \<noteq> []"
    and "LIVEKIT_API_SECRET env = Some secret" and "secret \<noteq> []"
    and "LIVEKIT_URL env = Some url" and "url \<noteq> []"
  shows "let p = token_payload k ''alice'' date_now in
           sub p = ''alice'' \<and> exp' p - nbf p = 21600 \<and>
           video_room (video p) = ''ai-chat-room'' \<and>
           roomJoin (video p) \<and> canPublish (video p) \<and> canSubscribe (video p) \<and>
           canPublishData (video p) \<and>
           handler sign env date_now req =
             (case sign p secret of
                Inr token \<Rightarrow>
                  Inr \<lparr>status = 200, body = Token_body token url ''ai-chat-room''\<rparr>
              | Inl m \<Rightarrow>
                  Inr \<lparr>status = 500, body = Sign_error_body ''Failed to generate token'' m\<rparr>)"
  using assms by (simp add: handler_def token_payload_def falsy_def Let_def split: sum.splits)

theorem alice_token_claims_witness:
  "handler example_sign example_env 1700000000123
     \<lparr>req_method = ''POST'', req_body = Some \<lparr>body_username = Some ''alice''\<rparr>\<rparr>
     = Inr \<lparr>status = 200, body = Token_body ''jwt.alice'' ''wss://host'' ''ai-chat-room''\<rparr>
   \<and> exp' (token_payload ''key'' ''alice'' 1700000000123) = 1700021600
   \<and> nbf (token_payload ''key'' ''alice'' 1700000000123) = 1700000000"
  using alice_token_claims
    [of "\<lparr>req_method = ''POST'', req_body = Some \<lparr>body_username = Some ''alice''\<rparr>\<rparr>"
      "\<lparr>body_username = Some ''alice''\<rparr>" example_env
      "''key''" "''secret''" "''wss://host''" 1700000000123 example_sign]
  by (simp add: example_env_def example_sign_def token_payload_def Let_def)

text \<open>
  A POST request whose body can be destructured and whose username is missing or
  empty is answered with status 400 and the error \<open>Username is required\<close>,
  whatever the configuration and whatever \<open>jwt.sign\<close> would do: the answer does
  not depend on the signing function and is never a token.
\<close>

lemma object_body_without_username_rejected:
  assumes "req_method req = ''POST''"
    and "req_body req = Some b"
    and "body_username b = None \<or> body_username b = Some []"
  shows "handler sign env date_now req =
           Inr \<lparr>status = 400, body = Error_body ''Username is required''\<rparr>
         \<and> handler sign env date_now req = handler sign' env date_now req"
  using assms by (auto simp: handler_def falsy_def)

text \<open>
  C6. A POST request without a username is not always answered with 400: when
  the body itself is \<open>null\<close> or \<open>undefined\<close>, the destructuring on line 9 throws a
  \<open>TypeError\<close> before the username is looked at, and the handler sends no
  response of its own.
\<close>

theorem null_body_throws:
  "handler example_sign example_env 1700000000123 \<lparr>req_method = ''POST'', req_body = None\<rparr>
     = Inl TypeError
   \<and> handler example_sign example_env 1700000000123 \<lparr>req_method = ''POST'', req_body = None\<rparr>
     \<noteq> Inr \<lparr>status = 400, body = Error_body ''Username is required''\<rparr>"
  by (simp add: handler_def)

text \<open>
  C5. A POST request with a non-empty username, when at least one of the key id,
  the secret and the URL is unset or empty, is answered with status 500 and a
  details object whose keys are \<open>apiKey\<close>, \<open>apiSecret\<close>, \<open>wsUrl\<close>, each \<open>Missing\<close> when
  its value is unset or empty and \<open>Present\<close> otherwise.
\<close>

theorem missing_configuration_reported:
  assumes "req_method req = ''POST''"
    and "req_body req = Some b" and "body_username b = Some u" and "u \<noteq> []"
    and "LIVEKIT_API_KEY env \<in> {None, Some []} \<or> LIVEKIT_API_SECRET env \<in> {None, Some []}
         \<or> LIVEKIT_URL env \<in> {None, Some []}"
  shows "\<exists>details.
           handler sign env date_now req =
             Inr \<lparr>status = 500,
                  body = Config_error_body ''Missing LiveKit configuration'' details\<rparr>
           \<and> map fst details = [''apiKey'', ''apiSecret'', ''wsUrl'']
           \<and> map_of details ''apiKey'' =
               Some (if LIVEKIT_API_KEY env \<in> {None, Some []} then ''Missing'' else ''Present'')
           \<and> map_of details ''apiSecret'' =
               Some (if LIVEKIT_API_SECRET env \<in> {None, Some []} then ''Missing'' else ''Present'')
           \<and> map_of details ''wsUrl'' =
               Some (if LIVEKIT_URL env \<in> {None, Some []} then ''Missing'' else ''Present'')"
proof -
  have absent: "falsy v \<longleftrightarrow> v \<in> {None, Some []}" for v
    by (cases v) (auto simp: falsy_def)
  from assms show ?thesis
    by (simp add: handler_def absent Let_def)
qed

theorem missing_configuration_reported_witness:
  "handler example_sign example_env_no_key 1700000000123
     \<lparr>req_method = ''POST'', req_body = Some \<lparr>body_username = Some ''alice''\<rparr>\<rparr>
   = Inr \<lparr>status = 500,
      body = Config_error_body ''Missing LiveKit configuration''
        [(''apiKey'', ''Missing''), (''apiSecret'', ''Present''), (''wsUrl'', ''Present'')]\<rparr>"
  using missing_configuration_reported
    [of "\<lparr>req_method = ''POST'', req_body = Some \<lparr>body_username = Some ''alice''\<rparr>\<rparr>"
      "\<lparr>body_username = Some ''alice''\<rparr>" "''alice''" example_env_no_key example_sign
      1700000000123]
  by (auto simp: example_env_no_key_def)

text \<open>
  The username is checked before the configuration: a POST request whose body
  has no username is answered with 400 even when the key id is unset.
\<close>

theorem missing_configuration_counterexample:
  "LIVEKIT_API_KEY example_env_no_key = None
   \<and> handler example_sign example_env_no_key 1700000000123
         \<lparr>req_method = ''POST'', req_body = Some \<lparr>body_username = None\<rparr>\<rparr>
       = Inr \<lparr>status = 400, body = Error_body ''Username is required''\<rparr>
   \<and> status (projr (handler example_sign example_env_no_key 1700000000123
         \<lparr>req_method = ''POST'', req_body = Some \<lparr>body_username = None\<rparr>\<rparr>)) \<noteq> 500"
  by (simp add: handler_def falsy_def example_env_no_key_def)

text \<open>
  C10. A username that is not empty and consists of white space passes the
  handler's check: the handler signs claims whose \<open>sub\<close> is that string and
  answers with the token. The controller sends the trimmed username, so no
  request of the controller carries such a username.
\<close>

theorem whitespace_username_signed:
  assumes "req_method req = ''POST''"
    and "req_body req = Some b" and "body_username b = Some u"
    and "u \<noteq> []" and "\<forall>c\<in>set u. isWhitespace c"
    and "LIVEKIT_API_KEY env = Some k" and "k \<noteq> []"
    and "LIVEKIT_API_SECRET env = Some secret" and "secret \<noteq> []"
    and "LIVEKIT_URL env = Some url" and "url \<noteq> []"
  shows "sub (token_payload k u date_now) = u
         \<and> handler sign env date_now req =
             (case sign (token_payload k u date_now) secret of
                Inr token \<Rightarrow>
                  Inr \<lparr>status = 200, body = Token_body token url ''ai-chat-room''\<rparr>
              | Inl m \<Rightarrow>
                  Inr \<lparr>status = 500, body = Sign_error_body ''Failed to generate token'' m\<rparr>)
         \<and> (\<forall>name. req_body (token_request name) = Some \<lparr>body_username = Some (trim name)\<rparr>
                    \<and> req_body (token_request name) \<noteq> Some \<lparr>body_username = Some u\<rparr>)"
proof -
  have "trim name \<noteq> u" for name
  proof
    assume eq: "trim name = u"
    with assms(4) have "\<not> isWhitespace (hd u)"
      using trim_starts_with_text [of name] by simp
    moreover from assms(4,5) have "isWhitespace (hd u)" by simp
    ultimately show False by simp
  qed
  with assms show ?thesis
    by (simp add: handler_def token_payload_def token_request_def falsy_def Let_def
        split: sum.splits)
qed

theorem whitespace_username_signed_witness:
  "handler example_sign example_env 1700000000123
     \<lparr>req_method = ''POST'', req_body = Some \<lparr>body_username = Some '' ''\<rparr>\<rparr>
     = Inr \<lparr>status = 200, body = Token_body ''jwt. '' ''wss://host'' ''ai-chat-room''\<rparr>
   \<and> req_body (token_request '' '') = Some \<lparr>body_username = Some []\<rparr>"
  using whitespace_username_signed
    [of "\<lparr>req_method = ''POST'', req_body = Some \<lparr>body_username = Some '' ''\<rparr>\<rparr>"
      "\<lparr>body_username = Some '' ''\<rparr>" "'' ''" example_env "''key''" "''secret''"
      "''wss://host''" 1700000000123 example_sign]
  by (simp add: example_env_def example_sign_def token_payload_def isWhitespace_def trim_def Let_def)

section \<open>Properties of the Session Controller\<close>

text \<open>
  C7. A join with a username that is empty or consists of white space leaves the
  connection state as it was, in particular \<open>Idle\<close>; it sets the error to
  \<open>Please enter a username\<close> and changes nothing else: messages, participants and
  the room are the same.
\<close>

theorem blank_username_not_joined:
  assumes "\<forall>c\<in>set (username s). isWhitespace c"
  shows "connectToRoom fetch connect s = s\<lparr>error := ''Please enter a username''\<rparr>
         \<and> connectionState (connectToRoom fetch connect s) = connectionState s
         \<and> (connectionState s = Idle \<longrightarrow> connectionState (connectToRoom fetch connect s) = Idle)
         \<and> error (connectToRoom fetch connect s) = ''Please enter a username''
         \<and> messages (connectToRoom fetch connect s) = messages s
         \<and> participants (connectToRoom fetch connect s) = participants s
         \<and> room (connectToRoom fetch connect s) = room s"
proof -
  from assms have "trim (username s) = []" by (simp add: trim_Nil_iff)
  then show ?thesis by (simp add: connectToRoom_def connectionState_def)
qed

theorem blank_username_not_joined_witness:
  "connectToRoom example_fetch example_connect (setUsername ''  '' initial_session)
     = (setUsername ''  '' initial_session)\<lparr>error := ''Please enter a username''\<rparr>
   \<and> connectionState (connectToRoom example_fetch example_connect
        (setUsername ''  '' initial_session)) = Idle"
proof -
  have "\<forall>c\<in>set (username (setUsername ''  '' initial_session)). isWhitespace c"
    by (simp add: setUsername_def isWhitespace_def)
  from blank_username_not_joined [OF this, of example_fetch example_connect] show ?thesis
    by (simp add: connectionState_def setUsername_def initial_session_def)
qed

text \<open>
  C8. A \<open>ParticipantConnected\<close> event for an identity that the participant list
  already holds leaves the list as it was.
\<close>

theorem ParticipantConnected_idempotent:
  assumes "identity \<in> set (participants s)"
  shows "participants (on_ParticipantConnected identity date_now new_date s) = participants s"
  using assms by (simp add: on_ParticipantConnected_def Let_def)

theorem ParticipantConnected_idempotent_witness:
  "participants (on_ParticipantConnected ''ai-agent'' 4000 4000 example_connected)
     = [''ai-agent'', ''bob'']"
proof -
  have "''ai-agent'' \<in> set (participants example_connected)"
    by (simp add: example_connected_def)
  from ParticipantConnected_idempotent [OF this, of 4000 4000] show ?thesis
    by (simp add: example_connected_def)
qed

text \<open>The handler adds no duplicate to a list that has none.\<close>

lemma ParticipantConnected_distinct:
  "distinct (participants s) \<Longrightarrow>
   distinct (participants (on_ParticipantConnected identity date_now new_date s))"
  by (simp add: on_ParticipantConnected_def Let_def)

text \<open>
  C9. The \<open>Connected\<close> event sets the participants to the remote identities
  followed by the local identity, without looking for it among them: when the
  local identity is also a remote one it occurs once more than among the remote
  identities, so at least twice.
\<close>

theorem Connected_seeds_local_identity_twice:
  assumes "localParticipant rm = Some l"
  shows "participants (on_Connected rm date_now new_date s) =
           (case room_participants rm of Some ps \<Rightarrow> ps | None \<Rightarrow> []) @ [l]
         \<and> (\<forall>ps. room_participants rm = Some ps \<and> l \<in> set ps \<longrightarrow>
               count_list (participants (on_Connected rm date_now new_date s)) l
                 = count_list ps l + 1
               \<and> 2 \<le> count_list (participants (on_Connected rm date_now new_date s)) l
               \<and> \<not> distinct (participants (on_Connected rm date_now new_date s)))"
proof -
  have p: "participants (on_Connected rm date_now new_date s) =
           (case room_participants rm of Some ps \<Rightarrow> ps | None \<Rightarrow> []) @ [l]"
    using assms
    by (simp add: on_Connected_def updateParticipantsList_def Let_def split: option.splits)
  have "Suc 0 \<le> count_list ps l" if "l \<in> set ps" for ps
    using that count_list_0_iff [of ps l] by arith
  then show ?thesis
    by (auto simp: p)
qed

theorem Connected_seeds_local_identity_twice_witness:
  "participants (on_Connected example_room_twice 1000 1000 initial_session)
     = [''bob'', ''ai-agent'', ''bob'']
   \<and> count_list (participants (on_Connected example_room_twice 1000 1000 initial_session)) ''bob'' = 2"
proof -
  have "localParticipant example_room_twice = Some ''bob''"
    by (simp add: example_room_twice_def)
  from Connected_seeds_local_identity_twice [OF this, of 1000 1000 initial_session] show ?thesis
    by (simp add: example_room_twice_def)
qed

text \<open>
  C1. From \<open>Connected\<close>, the disconnect action leads to \<open>Idle\<close> with no participants
  and no messages. The \<open>Disconnected\<close> event leads to \<open>Idle\<close> with no participants
  too, but it keeps the messages and appends the notice
  \<open>Disconnected from chat room\<close> to them.
\<close>

theorem disconnect_and_Disconnected:
  assumes "connectionState s = Connected"
  shows "connectionState (disconnect s) = Idle \<and> participants (disconnect s) = []
         \<and> messages (disconnect s) = []
         \<and> connectionState (on_Disconnected date_now new_date s) = Idle
         \<and> participants (on_Disconnected date_now new_date s) = []
         \<and> messages (on_Disconnected date_now new_date s) =
             messages s @ [system_message date_now new_date ''Disconnected from chat room'']"
  using assms
  by (simp add: connectionState_def disconnect_def on_Disconnected_def Let_def split: if_splits)

theorem disconnect_and_Disconnected_witness:
  "connectionState example_connected = Connected
   \<and> messages (disconnect example_connected) = []
   \<and> messages (on_Disconnected 2000 2001 example_connected) =
       [system_message 1000 1000 ''Connected to chat room!'',
        system_message 2000 2001 ''Disconnected from chat room'']"
proof -
  have c: "connectionState example_connected = Connected"
    by (simp add: connectionState_def example_connected_def)
  from disconnect_and_Disconnected [OF c, of 2000 2001] c show ?thesis
    by (simp add: example_connected_def)
qed

text \<open>After the \<open>Disconnected\<close> event the message list is not empty.\<close>

theorem Disconnected_keeps_messages_counterexample:
  "connectionState example_connected = Connected
   \<and> messages (on_Disconnected 2000 2001 example_connected) \<noteq> []"
  by (simp add: connectionState_def example_connected_def on_Disconnected_def)

text \<open>
  The \<open>catch\<close> block of \<open>sendMessage\<close> removes the messages whose identifier is the
  time it reads, and no other.
\<close>

lemma sendMessage_catch_keeps:
  "m \<in> set (messages s) \<Longrightarrow> msg_id m \<noteq> of_int date_now \<Longrightarrow>
   m \<in> set (messages (sendMessage_catch e date_now s))"
  by (simp add: sendMessage_catch_def)

text \<open>
  C2. When \<open>publishData\<close> throws, \<open>sendMessage\<close> sets the error to
  \<open>Failed to send message:\<close> and the message of the exception, and its filter
  compares with the time read in the \<open>catch\<close> block: if that time differs from the
  time read when the message was appended, the appended message is still in the
  list, as its last element.
\<close>

theorem failed_send_keeps_optimistic_message:
  assumes "trim (inputMessage s) \<noteq> []" and "room s \<noteq> None" and "isConnected s"
    and "publishData (encode (trim (inputMessage s))) = Some m"
    and "date_now \<noteq> date_now_catch"
  shows "let s' = sendMessage encode publishData date_now new_date date_now_catch s;
             optimistic = \<lparr>msg_id = of_int date_now, sender = username s,
                            message = trim (inputMessage s), timestamp = new_date,
                            isSystem = False, isUser = True, isBot = False\<rparr>
         in error s' = ''Failed to send message: '' @ m
            \<and> optimistic \<in> set (messages s')
            \<and> messages s' =
                filter (\<lambda>msg. msg_id msg \<noteq> of_int date_now_catch) (messages s) @ [optimistic]"
  using assms by (auto simp: sendMessage_def sendMessage_catch_def Let_def)

theorem failed_send_keeps_optimistic_message_witness:
  "error (sendMessage example_encode example_publish_fails 3000 3000 3007 example_connected)
     = ''Failed to send message: channel closed''
   \<and> map message (messages (sendMessage example_encode example_publish_fails 3000 3000 3007
        example_connected)) = [''Connected to chat room!'', ''hi'']"
proof -
  have t: "trim (inputMessage example_connected) = ''hi''"
    by (simp add: example_connected_def trim_def isWhitespace_def)
  have "trim (inputMessage example_connected) \<noteq> []" "room example_connected \<noteq> None"
    "isConnected example_connected"
    "example_publish_fails (example_encode (trim (inputMessage example_connected)))
       = Some ''channel closed''"
    "(3000::int) \<noteq> 3007"
    by (simp_all add: t example_publish_fails_def) (simp_all add: example_connected_def)
  from failed_send_keeps_optimistic_message [of example_connected example_publish_fails
      example_encode "''channel closed''" 3000 3007 3000, OF this] t show ?thesis
    by (simp add: Let_def) (simp add: example_connected_def system_message_def)
qed

text \<open>
  C4. Join as \<open>bob\<close>, the room service fires \<open>Connected\<close> and the join settles,
  send \<open>hi\<close>, receive \<open>hi back\<close> from \<open>ai-agent\<close>: the guard of the join passes, the
  session is \<open>Connected\<close>, and the messages are the system notice
  \<open>Connected to chat room!\<close>, the user's \<open>hi\<close> and the agent's \<open>hi back\<close>, in this
  order.
\<close>

theorem bob_scenario:
  assumes "fetch (token_request ''bob'') = Inr response" and "ok response"
    and "resp_json response = Inr (token, wsUrl, roomName)"
    and "connect wsUrl token = Inr rm"
    and "publishData (encode ''hi'') = None"
    and "decode payload = Some ''hi back''"
  shows "let s1 = setUsername ''bob'' initial_session;
             s2 = connectToRoom_begin s1;
             s3 = on_Connected rm t1 d1 s2;
             s4 = connectToRoom_settle fetch connect (username s1) s3;
             s5 = setInputMessage ''hi'' s4;
             s6 = sendMessage encode publishData t2 d2 t2c s5;
             s7 = on_DataReceived decode payload (Some ''ai-agent'') t3 r d3 s6
         in connectToRoom fetch connect s1 = connectToRoom_settle fetch connect (username s1) s2
            \<and> connectionState s4 = Connected
            \<and> messages s7 =
                [\<lparr>msg_id = of_int t1, sender = ''System'', message = ''Connected to chat room!'',
                  timestamp = d1, isSystem = True, isUser = False, isBot = False\<rparr>,
                 \<lparr>msg_id = of_int t2, sender = ''bob'', message = ''hi'',
                  timestamp = d2, isSystem = False, isUser = True, isBot = False\<rparr>,
                 \<lparr>msg_id = of_int t3 + r, sender = ''ai-agent'', message = ''hi back'',
                  timestamp = d3, isSystem = False, isUser = False, isBot = True\<rparr>]
            \<and> map (\<lambda>m. (getMessageStyle m, message m)) (messages s7) =
                [(System_style, ''Connected to chat room!''), (User_style, ''hi''),
                 (Agent_style, ''hi back'')]"
proof -
  define s1 where "s1 = setUsername ''bob'' initial_session"
  define s2 where "s2 = connectToRoom_begin s1"
  define s3 where "s3 = on_Connected rm t1 d1 s2"
  define s4 where "s4 = connectToRoom_settle fetch connect (username s1) s3"
  define s5 where "s5 = setInputMessage ''hi'' s4"
  define s6 where "s6 = sendMessage encode publishData t2 d2 t2c s5"
  define s7 where "s7 = on_DataReceived decode payload (Some ''ai-agent'') t3 r d3 s6"
  have u1: "username s1 = ''bob''"
    by (simp add: s1_def setUsername_def)
  have join: "connectToRoom fetch connect s1 = connectToRoom_settle fetch connect (username s1) s2"
    by (simp add: connectToRoom_def u1 trim_bob s2_def)
  have m3: "messages s3 = [system_message t1 d1 ''Connected to chat room!'']"
    and c3: "isConnected s3" "\<not> isConnecting s3" and u3: "username s3 = ''bob''"
    by (simp_all add: s3_def s2_def s1_def on_Connected_def updateParticipantsList_def
        connectToRoom_begin_def setUsername_def initial_session_def Let_def
        split: option.splits)
  have s4: "s4 = s3\<lparr>room := Some rm\<rparr>"
    using assms(1-4) by (simp add: s4_def connectToRoom_settle_def u1)
  have state4: "connectionState s4 = Connected"
    using c3 by (simp add: s4 connectionState_def)
  have m6: "messages s6 = messages s3 @
              [\<lparr>msg_id = of_int t2, sender = ''bob'', message = ''hi'',
                timestamp = d2, isSystem = False, isUser = True, isBot = False\<rparr>]"
    using assms(5) c3 u3
    by (simp add: s6_def s5_def s4 sendMessage_def setInputMessage_def trim_hi Let_def)
  have m7: "messages s7 = messages s6 @
              [\<lparr>msg_id = of_int t3 + r, sender = ''ai-agent'', message = ''hi back'',
                timestamp = d3, isSystem = False, isUser = False, isBot = True\<rparr>]"
    using assms(6) by (simp add: s7_def on_DataReceived_def falsy_def)
  have all: "messages s7 =
                [\<lparr>msg_id = of_int t1, sender = ''System'', message = ''Connected to chat room!'',
                  timestamp = d1, isSystem = True, isUser = False, isBot = False\<rparr>,
                 \<lparr>msg_id = of_int t2, sender = ''bob'', message = ''hi'',
                  timestamp = d2, isSystem = False, isUser = True, isBot = False\<rparr>,
                 \<lparr>msg_id = of_int t3 + r, sender = ''ai-agent'', message = ''hi back'',
                  timestamp = d3, isSystem = False, isUser = False, isBot = True\<rparr>]"
    by (simp add: m7 m6 m3 system_message_def)
  have styles: "map (\<lambda>m. (getMessageStyle m, message m)) (messages s7) =
                [(System_style, ''Connected to chat room!''), (User_style, ''hi''),
                 (Agent_style, ''hi back'')]"
    by (simp add: all getMessageStyle_def)
  from join state4 all styles show ?thesis
    unfolding Let_def s1_def [symmetric] s2_def [symmetric] s3_def [symmetric]
      s4_def [symmetric] s5_def [symmetric] s6_def [symmetric] s7_def [symmetric]
    by simp
qed

theorem bob_scenario_witness:
  "map (\<lambda>m. (getMessageStyle m, message m))
     (messages
        (on_DataReceived example_decode ''hi back'' (Some ''ai-agent'') 3500 (1 / 2) 3501
           (sendMessage example_encode example_publish_ok 3000 3000 3007
              (setInputMessage ''hi''
                 (connectToRoom_settle example_fetch example_connect ''bob''
                    (on_Connected example_room 1000 1001
                       (connectToRoom_begin (setUsername ''bob'' initial_session))))))))
   = [(System_style, ''Connected to chat room!''), (User_style, ''hi''), (Agent_style, ''hi back'')]"
proof -
  have "example_fetch (token_request ''bob'') =
          Inr \<lparr>ok = True, resp_status = 200, resp_text = [],
               resp_json = Inr (''jwt.bob'', ''wss://host'', ''ai-chat-room'')\<rparr>"
    "ok \<lparr>ok = True, resp_status = 200, resp_text = [],
         resp_json = Inr (''jwt.bob'', ''wss://host'', ''ai-chat-room'')\<rparr>"
    "resp_json \<lparr>ok = True, resp_status = 200, resp_text = [],
         resp_json = Inr (''jwt.bob'', ''wss://host'', ''ai-chat-room'')\<rparr>
       = Inr (''jwt.bob'', ''wss://host'', ''ai-chat-room'')"
    "example_connect ''wss://host'' ''jwt.bob'' = Inr example_room"
    "example_publish_ok (example_encode ''hi'') = None"
    "example_decode ''hi back'' = Some ''hi back''"
    by (simp_all add: example_fetch_def example_connect_def example_publish_ok_def
        example_decode_def)
  from bob_scenario [of example_fetch _ "''jwt.bob''" "''wss://host''" "''ai-chat-room''"
      example_connect example_room example_publish_ok example_encode example_decode
      "''hi back''" 1000 1001 3000 3000 3007 3500 "1 / 2" 3501, OF this]
  show ?thesis
    by (simp add: Let_def setUsername_def getMessageStyle_def)
qed

end
